theory Spec2Isabelle
  imports Complex_Main
begin

section \<open>GateError: decomposition of a CPTP map and sampling dispatch\<close>

text \<open>
  A shallow embedding of \<^verbatim>\<open>src/noise/gate_error.hpp\<close> (class \<^verbatim>\<open>AER::Noise::GateError\<close>).

  Conventions of the embedding.
  \<^item> A \<^verbatim>\<open>double\<close> is a \<^typ>\<open>real\<close> and a \<^verbatim>\<open>std::complex<double>\<close> is a
    \<^typ>\<open>complex\<close>: arithmetic is exact, rounding, infinities and NaN are not modelled.
  \<^item> \<^verbatim>\<open>size_t\<close> and \<^verbatim>\<open>uint_t\<close> values are only counted and compared, never
    overflowed, and are \<^typ>\<open>nat\<close>.
  \<^item> The matrix class \<^verbatim>\<open>cmatrix_t\<close> and the helpers of namespace \<^verbatim>\<open>Utils\<close> are not
    part of the file. The functions of \<^verbatim>\<open>GateError\<close> take them as a parameter, a
    record of operations over an arbitrary matrix type, so every theorem about
    \<^verbatim>\<open>set_from_ops\<close> holds for whatever the matrix library computes.
  \<^item> Every \<^verbatim>\<open>throw\<close> is a value: \<^verbatim>\<open>std::invalid_argument\<close> with its message.
    Reading \<^verbatim>\<open>mats[0]\<close> of an empty vector is undefined behaviour in C++ and is an
    outcome of its own.
\<close>

subsection \<open>Errors and outcomes\<close>

datatype error = invalid_argument string

text \<open>The four messages the file throws, under the names the specification gives them.\<close>

definition InvalidChannel :: error where
  "InvalidChannel = invalid_argument ''GateError input is not a CPTP map.''"

definition NonSquareOperator :: error where
  "NonSquareOperator = invalid_argument ''Error matrix is not square.''"

definition InvalidDecomposition :: error where
  "InvalidDecomposition = invalid_argument ''GateError deduced probabilities invalid.''"

definition UnreachableState :: error where
  "UnreachableState = invalid_argument ''GateError type is out of range.''"

text \<open>
  The outcome of a member function that mutates the object: it returns with the new
  state, or throws with the state the object has at the \<^verbatim>\<open>throw\<close>, or its behaviour
  is undefined.
\<close>

datatype 's outcome = Returns 's | Throws error 's | Undefined

subsection \<open>The matrix library, as a parameter\<close>

text \<open>
  The operations of \<^verbatim>\<open>cmatrix_t\<close> and \<^verbatim>\<open>Utils\<close> that \<^verbatim>\<open>set_from_ops\<close> calls:
  \<^verbatim>\<open>m.size()\<close>, the constructor \<^verbatim>\<open>cmatrix_t(n)\<close>, \<^verbatim>\<open>a + b\<close>, \<^verbatim>\<open>a * b\<close>,
  \<^verbatim>\<open>x * m\<close> for a double \<^verbatim>\<open>x\<close>, \<^verbatim>\<open>m.GetRows()\<close>, \<^verbatim>\<open>m(i, j)\<close>, and
  \<^verbatim>\<open>Utils::dagger\<close>, \<^verbatim>\<open>Utils::is_square\<close>, \<^verbatim>\<open>Utils::is_identity\<close>,
  \<^verbatim>\<open>Utils::is_unitary\<close>.
\<close>

record 'm linalg =
  mat_size :: "'m \<Rightarrow> nat"
  mat_of_size :: "nat \<Rightarrow> 'm"
  mat_add :: "'m \<Rightarrow> 'm \<Rightarrow> 'm"
  mat_mul :: "'m \<Rightarrow> 'm \<Rightarrow> 'm"
  scalar_mul :: "real \<Rightarrow> 'm \<Rightarrow> 'm"
  GetRows :: "'m \<Rightarrow> nat"
  mat_at :: "'m \<Rightarrow> nat \<Rightarrow> nat \<Rightarrow> complex"
  dagger :: "'m \<Rightarrow> 'm"
  is_square :: "'m \<Rightarrow> bool"
  is_identity :: "'m \<Rightarrow> real \<Rightarrow> bool"
  is_unitary :: "'m \<Rightarrow> real \<Rightarrow> bool"

subsection \<open>The state of a GateError\<close>

text \<open>
  \<^verbatim>\<open>std::discrete_distribution<uint_t>\<close> is the standard library's. A distribution
  holds the probabilities of its outcomes, what its member \<^verbatim>\<open>probabilities()\<close>
  returns. Its constructor takes weights and normalises them: the probability of
  outcome \<open>k\<close> is the weight \<open>w k\<close> divided by the sum of all the weights; without
  weights (and default-constructed) the distribution has the one outcome 0, of
  probability 1. The standard requires weights that are not negative and whose sum is
  positive; the constructor checks neither, and divides. (With the sum 0 the quotients
  are not numbers in the program and 0 here: the theorems below all have a sum that is
  not 0.)
\<close>

datatype discrete_distribution = DiscreteDistribution (distribution_probabilities: "real list")

definition make_discrete_distribution :: "real list \<Rightarrow> discrete_distribution" where
  "make_discrete_distribution ws =
     (if ws = [] then DiscreteDistribution [1]
      else DiscreteDistribution (map (\<lambda>w. w / sum_list ws) ws))"

text \<open>
  Modelled from the spec: the classes \<^verbatim>\<open>UnitaryError\<close> (noise/unitary_error.hpp) and
  \<^verbatim>\<open>KrausError\<close> (noise/kraus_error.hpp) are missing. The unitary channel
  "holds a set of candidate unitary matrices and per-matrix probabilities", the Kraus
  channel "holds a set of Kraus operators and an activation probability"; their
  setters replace the respective member.
\<close>

record 'm UnitaryError =
  unitary_probabilities :: "real list"
  unitary_matrices :: "'m list"

record 'm KrausError =
  kraus_matrices :: "'m list"
  kraus_probability :: real

definition UnitaryError_set_probabilities :: "real list \<Rightarrow> 'm UnitaryError \<Rightarrow> 'm UnitaryError" where
  "UnitaryError_set_probabilities probs e = e\<lparr>unitary_probabilities := probs\<rparr>"

definition UnitaryError_set_unitaries :: "'m list \<Rightarrow> 'm UnitaryError \<Rightarrow> 'm UnitaryError" where
  "UnitaryError_set_unitaries us e = e\<lparr>unitary_matrices := us\<rparr>"

definition KrausError_set_kraus :: "'m list \<Rightarrow> 'm KrausError \<Rightarrow> 'm KrausError" where
  "KrausError_set_kraus ks e = e\<lparr>kraus_matrices := ks\<rparr>"

definition KrausError_set_probability :: "real \<Rightarrow> 'm KrausError \<Rightarrow> 'm KrausError" where
  "KrausError_set_probability p e = e\<lparr>kraus_probability := p\<rparr>"

text \<open>
  The members \<^verbatim>\<open>probabilities_\<close>, \<^verbatim>\<open>unitary_error_\<close> and \<^verbatim>\<open>kraus_error_\<close>
  (a name cannot end with an underscore here).
\<close>

record 'm GateError =
  probabilities :: discrete_distribution
  unitary_error :: "'m UnitaryError"
  kraus_error :: "'m KrausError"

text \<open>
  Modelled from the spec: the default constructors of \<^verbatim>\<open>UnitaryError\<close> and
  \<^verbatim>\<open>KrausError\<close> are missing. \<^verbatim>\<open>GateError() = default;\<close> default-constructs the
  three members; a model "constructed empty" has sub-channels without operators.
\<close>

definition GateError_default :: "'m GateError" where
  "GateError_default =
     \<lparr>probabilities = make_discrete_distribution [],
      unitary_error = \<lparr>unitary_probabilities = [], unitary_matrices = []\<rparr>,
      kraus_error = \<lparr>kraus_matrices = [], kraus_probability = 0\<rparr>\<rparr>"

subsection \<open>The mutators\<close>

definition set_probabilities :: "real \<Rightarrow> real \<Rightarrow> real \<Rightarrow> 'm GateError \<Rightarrow> 'm GateError" where
  "set_probabilities p_id p_un p_kr g =
     g\<lparr>probabilities := make_discrete_distribution [p_id, p_un, p_kr]\<rparr>"

definition set_kraus :: "'m KrausError \<Rightarrow> 'm GateError \<Rightarrow> 'm GateError" where
  "set_kraus err g = g\<lparr>kraus_error := err\<rparr>"

definition set_unitary :: "'m UnitaryError \<Rightarrow> 'm GateError \<Rightarrow> 'm GateError" where
  "set_unitary err g = g\<lparr>unitary_error := err\<rparr>"

subsection \<open>set_from_ops\<close>

text \<open>\<^verbatim>\<open>double threshold = 1e-10;\<close>\<close>

definition threshold :: real where
  "threshold = 1 / 10 ^ 10"

text \<open>
  Lines 116 to 119: the accumulator starts as \<^verbatim>\<open>cmatrix_t(mats[0].size())\<close> and every
  matrix adds \<^verbatim>\<open>dagger(mat) * mat\<close> to it. \<open>m0\<close> is \<^verbatim>\<open>mats[0]\<close>.
\<close>

definition cptp_sum :: "'m linalg \<Rightarrow> 'm \<Rightarrow> 'm list \<Rightarrow> 'm" where
  "cptp_sum L m0 mats =
     foldl (\<lambda>cptp mat. mat_add L cptp (mat_mul L (dagger L mat) mat))
       (mat_of_size L (mat_size L m0)) mats"

text \<open>
  Lines 141 to 143: \<^verbatim>\<open>p += std::real(std::abs(mat(j, 0) * std::conj(mat(0, j))))\<close> for
  \<open>j\<close> below \<^verbatim>\<open>mat.GetRows()\<close>. \<^verbatim>\<open>std::abs\<close> of a complex number is its modulus, a
  double, and \<^verbatim>\<open>std::real\<close> of a double is that double.
\<close>

definition weight :: "'m linalg \<Rightarrow> 'm \<Rightarrow> real" where
  "weight L mat =
     foldl (\<lambda>p j. p + cmod (mat_at L mat j 0 * cnj (mat_at L mat 0 j))) 0
       [0 ..< GetRows L mat]"

text \<open>The locals of the classification loop (lines 127 to 133).\<close>

record 'm partition =
  p_identity :: real
  p_unitary :: real
  probs_unitaries :: "real list"
  unitaries :: "'m list"
  kraus :: "'m list"

definition empty_partition :: "'m partition" where
  "empty_partition =
     \<lparr>p_identity = 0, p_unitary = 0, probs_unitaries = [], unitaries = [], kraus = []\<rparr>"

text \<open>The body of the loop of lines 135 to 161, for one matrix.\<close>

definition classify :: "'m linalg \<Rightarrow> 'm partition \<Rightarrow> 'm \<Rightarrow> error + 'm partition" where
  "classify L s mat =
     (if \<not> is_square L mat then Inl (invalid_argument ''Error matrix is not square.'')
      else
        let p = weight L mat in
        if p > 0 then
          let tmp = scalar_mul L (1 / sqrt p) mat in
          if is_identity L tmp threshold then
            Inr (s\<lparr>p_identity := p_identity s + p\<rparr>)
          else if is_unitary L tmp threshold then
            Inr (s\<lparr>unitaries := unitaries s @ [tmp],
                   probs_unitaries := probs_unitaries s @ [p],
                   p_unitary := p_unitary s + p\<rparr>)
          else Inr (s\<lparr>kraus := kraus s @ [mat]\<rparr>)
        else Inr s)"

fun classify_all :: "'m linalg \<Rightarrow> 'm partition \<Rightarrow> 'm list \<Rightarrow> error + 'm partition" where
  "classify_all L s [] = Inr s"
| "classify_all L s (mat # mats) =
     (case classify L s mat of
        Inl e \<Rightarrow> Inl e
      | Inr s' \<Rightarrow> classify_all L s' mats)"

text \<open>
  Lines 162 to 191, after the loop: the Kraus weight, the sanity check, the rescaling
  of the two candidate lists, and the setters.
\<close>

definition configure :: "'m linalg \<Rightarrow> real \<Rightarrow> 'm partition \<Rightarrow> 'm GateError \<Rightarrow> 'm GateError outcome" where
  "configure L p_error s g =
     (let p_kraus = 1 - p_identity s - p_unitary s in
      if \<bar>p_identity s + p_unitary s + p_kraus - 1\<bar> > threshold then
        Throws (invalid_argument ''GateError deduced probabilities invalid.'') g
      else
        let kraus' = (if p_kraus > 0 \<and> p_kraus < 1
                      then map (scalar_mul L (1 / sqrt p_kraus)) (kraus s) else kraus s);
            probs' = (if p_unitary s > 0 \<and> p_unitary s < 1
                      then map (\<lambda>p. p / p_unitary s) (probs_unitaries s)
                      else probs_unitaries s);
            g1 = set_probabilities (1 - p_error + p_error * p_identity s)
                   (p_error * p_unitary s) (p_error * p_kraus) g;
            g2 = g1\<lparr>unitary_error := UnitaryError_set_probabilities probs' (unitary_error g1)\<rparr>;
            g3 = g2\<lparr>unitary_error := UnitaryError_set_unitaries (unitaries s) (unitary_error g2)\<rparr>;
            g4 = g3\<lparr>kraus_error := KrausError_set_kraus kraus' (kraus_error g3)\<rparr>;
            g5 = (if kraus' = []
                  then g4\<lparr>kraus_error := KrausError_set_probability 0 (kraus_error g4)\<rparr>
                  else g4\<lparr>kraus_error := KrausError_set_probability 1 (kraus_error g4)\<rparr>)
        in Returns g5)"

text \<open>
  The whole function. \<^verbatim>\<open>mats[0]\<close> is read first; every \<^verbatim>\<open>throw\<close> comes before the
  first setter, so a thrown error carries the state the call started with.
\<close>

definition set_from_ops :: "'m linalg \<Rightarrow> 'm list \<Rightarrow> real \<Rightarrow> 'm GateError \<Rightarrow> 'm GateError outcome" where
  "set_from_ops L mats p_error g =
     (case mats of
        [] \<Rightarrow> Undefined
      | m0 # _ \<Rightarrow>
          if is_identity L (cptp_sum L m0 mats) threshold = False then
            Throws (invalid_argument ''GateError input is not a CPTP map.'') g
          else
            (case classify_all L empty_partition mats of
               Inl e \<Rightarrow> Throws e g
             | Inr s \<Rightarrow> configure L p_error s g))"

text \<open>
  Line 36: the constructor from a list of matrices calls \<^verbatim>\<open>set_from_ops(mats, 1.0)\<close>
  on the default-constructed members. A constructor that throws constructs no object.
\<close>

datatype 'm construction =
  Constructed "'m GateError" | Construction_throws error | Construction_undefined

definition GateError_from_mats :: "'m linalg \<Rightarrow> 'm list \<Rightarrow> 'm construction" where
  "GateError_from_mats L mats =
     (case set_from_ops L mats 1 GateError_default of
        Returns g \<Rightarrow> Constructed g
      | Throws e _ \<Rightarrow> Construction_throws e
      | Undefined \<Rightarrow> Construction_undefined)"

subsection \<open>sample_noise\<close>

text \<open>
  \<^verbatim>\<open>RngEngine::rand_int\<close> and the \<^verbatim>\<open>sample_noise\<close> members of the two sub-error
  classes are not part of the file and are parameters. The randomness source is
  passed by reference: each of them takes its state and returns the new one.
\<close>

record ('m, 'op, 'q, 'rng) collaborators =
  rand_int :: "'rng \<Rightarrow> discrete_distribution \<Rightarrow> nat \<times> 'rng"
  UnitaryError_sample_noise ::
    "'m UnitaryError \<Rightarrow> 'op \<Rightarrow> 'q \<Rightarrow> 'rng \<Rightarrow> (error + 'op list) \<times> 'rng"
  KrausError_sample_noise ::
    "'m KrausError \<Rightarrow> 'op \<Rightarrow> 'q \<Rightarrow> 'rng \<Rightarrow> (error + 'op list) \<times> 'rng"

definition sample_noise ::
  "('m, 'op, 'q, 'rng) collaborators \<Rightarrow> ('m, 'z) GateError_scheme \<Rightarrow> 'op \<Rightarrow> 'q \<Rightarrow> 'rng
     \<Rightarrow> (error + 'op list) \<times> 'rng" where
  "sample_noise C g op qubits rng =
     (case rand_int C rng (probabilities g) of
        (noise_type, rng') \<Rightarrow>
          if noise_type = 0 then (Inr [op], rng')
          else if noise_type = 1 then
            UnitaryError_sample_noise C (unitary_error g) op qubits rng'
          else if noise_type = 2 then
            KrausError_sample_noise C (kraus_error g) op qubits rng'
          else (Inl (invalid_argument ''GateError type is out of range.''), rng'))"

text \<open>
  Repeated calls on one model, the randomness source threaded from call to call: each
  entry of the result is the branch drawn (line 84) and what the call returned. A call
  that throws ends the run.
\<close>

fun sample_run ::
  "('m, 'op, 'q, 'rng) collaborators \<Rightarrow> ('m, 'z) GateError_scheme \<Rightarrow> ('op \<times> 'q) list \<Rightarrow> 'rng
     \<Rightarrow> (nat \<times> (error + 'op list)) list \<times> 'rng" where
  "sample_run C g [] rng = ([], rng)"
| "sample_run C g ((op, qubits) # calls) rng =
     (let noise_type = fst (rand_int C rng (probabilities g));
          (r, rng') = sample_noise C g op qubits rng
      in case r of
           Inl e \<Rightarrow> ([(noise_type, r)], rng')
         | Inr ops \<Rightarrow>
             (let (rs, rng'') = sample_run C g calls rng' in ((noise_type, r) # rs, rng'')))"

subsection \<open>sample_noise over collaborators that need not be deterministic\<close>

text \<open>
  Whether two calls of \<^verbatim>\<open>sample_noise\<close> agree depends on its collaborators too: a
  generator with a seed outside its state, or a sub-channel that draws from a global
  generator, gives different results for the same state of the randomness source. For
  that question \<^verbatim>\<open>rand_int\<close> and the two \<^verbatim>\<open>sample_noise\<close> members are relations
  between what they are given and what they may return.
\<close>

record ('m, 'op, 'q, 'rng) collaborator_relations =
  rand_int_rel :: "'rng \<Rightarrow> discrete_distribution \<Rightarrow> nat \<times> 'rng \<Rightarrow> bool"
  UnitaryError_sample_noise_rel ::
    "'m UnitaryError \<Rightarrow> 'op \<Rightarrow> 'q \<Rightarrow> 'rng \<Rightarrow> (error + 'op list) \<times> 'rng \<Rightarrow> bool"
  KrausError_sample_noise_rel ::
    "'m KrausError \<Rightarrow> 'op \<Rightarrow> 'q \<Rightarrow> 'rng \<Rightarrow> (error + 'op list) \<times> 'rng \<Rightarrow> bool"

text \<open>
  Lines 84 to 95 over such collaborators, one rule for each \<^verbatim>\<open>case\<close> of the switch. The
  branch drawn on line 84 is part of the outcome.
\<close>

inductive sample_noise_rel ::
  "('m, 'op, 'q, 'rng) collaborator_relations \<Rightarrow> ('m, 'z) GateError_scheme \<Rightarrow> 'op \<Rightarrow> 'q \<Rightarrow> 'rng
     \<Rightarrow> nat \<Rightarrow> (error + 'op list) \<times> 'rng \<Rightarrow> bool"
  for R g op qubits rng where
  case_0:
    "rand_int_rel R rng (probabilities g) (0, rng')
       \<Longrightarrow> sample_noise_rel R g op qubits rng 0 (Inr [op], rng')"
| case_1:
    "rand_int_rel R rng (probabilities g) (1, rng')
       \<Longrightarrow> UnitaryError_sample_noise_rel R (unitary_error g) op qubits rng' res
       \<Longrightarrow> sample_noise_rel R g op qubits rng 1 res"
| case_2:
    "rand_int_rel R rng (probabilities g) (2, rng')
       \<Longrightarrow> KrausError_sample_noise_rel R (kraus_error g) op qubits rng' res
       \<Longrightarrow> sample_noise_rel R g op qubits rng 2 res"
| default:
    "rand_int_rel R rng (probabilities g) (noise_type, rng') \<Longrightarrow> 2 < noise_type
       \<Longrightarrow> sample_noise_rel R g op qubits rng noise_type
             (Inl (invalid_argument ''GateError type is out of range.''), rng')"

code_pred sample_noise_rel .

text \<open>
  Repeated calls on one model, as \<open>sample_run\<close>: a call that throws ends the run.
\<close>

inductive sample_calls_rel ::
  "('m, 'op, 'q, 'rng) collaborator_relations \<Rightarrow> ('m, 'z) GateError_scheme \<Rightarrow> ('op \<times> 'q) list
     \<Rightarrow> 'rng \<Rightarrow> (nat \<times> (error + 'op list)) list \<times> 'rng \<Rightarrow> bool"
  for R g where
  no_call: "sample_calls_rel R g [] rng ([], rng)"
| throwing_call:
    "sample_noise_rel R g op qubits rng noise_type (Inl e, rng')
       \<Longrightarrow> sample_calls_rel R g ((op, qubits) # calls) rng ([(noise_type, Inl e)], rng')"
| returning_call:
    "sample_noise_rel R g op qubits rng noise_type (Inr ops, rng')
       \<Longrightarrow> sample_calls_rel R g calls rng' (rs, rng'')
       \<Longrightarrow> sample_calls_rel R g ((op, qubits) # calls) rng ((noise_type, Inr ops) # rs, rng'')"

code_pred sample_calls_rel .

text \<open>
  The collaborators are deterministic when each has at most one outcome for what it is
  given: the contract of the random sampler, "deterministic given a fixed seed", with
  the seed in the state of the source.
\<close>

definition deterministic_collaborators :: "('m, 'op, 'q, 'rng) collaborator_relations \<Rightarrow> bool" where
  "deterministic_collaborators R \<longleftrightarrow>
     (\<forall>rng probs x y. rand_int_rel R rng probs x \<longrightarrow> rand_int_rel R rng probs y \<longrightarrow> x = y) \<and>
     (\<forall>e op qubits rng x y.
        UnitaryError_sample_noise_rel R e op qubits rng x \<longrightarrow>
        UnitaryError_sample_noise_rel R e op qubits rng y \<longrightarrow> x = y) \<and>
     (\<forall>e op qubits rng x y.
        KrausError_sample_noise_rel R e op qubits rng x \<longrightarrow>
        KrausError_sample_noise_rel R e op qubits rng y \<longrightarrow> x = y)"

text \<open>The collaborators that are functions, as relations.\<close>

definition relations_of ::
  "('m, 'op, 'q, 'rng) collaborators \<Rightarrow> ('m, 'op, 'q, 'rng) collaborator_relations" where
  "relations_of C =
     \<lparr>rand_int_rel = (\<lambda>rng probs x. x = rand_int C rng probs),
      UnitaryError_sample_noise_rel =
        (\<lambda>e op qubits rng x. x = UnitaryError_sample_noise C e op qubits rng),
      KrausError_sample_noise_rel =
        (\<lambda>e op qubits rng x. x = KrausError_sample_noise C e op qubits rng)\<rparr>"

subsection \<open>A matrix library to run the functions on\<close>

text \<open>
  Modelled from the spec: the matrix class \<^verbatim>\<open>cmatrix_t\<close> (framework/matrix.hpp) is
  missing. A matrix is the list of its rows; \<^verbatim>\<open>m(i, j)\<close> is entry \<open>j\<close> of row \<open>i\<close>.
  The constructor \<^verbatim>\<open>cmatrix_t(n)\<close> starts the sum of step 1 of the decomposition: it
  is the square zero matrix with \<open>n\<close> entries (of the least dimension \<open>d\<close> with
  \<open>n \<le> d * d\<close>).
\<close>

type_synonym cmatrix = "complex list list"

definition cmatrix_rows :: "cmatrix \<Rightarrow> nat" where
  "cmatrix_rows m = length m"

definition cmatrix_columns :: "cmatrix \<Rightarrow> nat" where
  "cmatrix_columns m = (case m of [] \<Rightarrow> 0 | r # _ \<Rightarrow> length r)"

definition cmatrix_at :: "cmatrix \<Rightarrow> nat \<Rightarrow> nat \<Rightarrow> complex" where
  "cmatrix_at m i j = m ! i ! j"

definition cmatrix_of_size :: "nat \<Rightarrow> cmatrix" where
  "cmatrix_of_size n =
     (let d = length (takeWhile (\<lambda>d. d * d < n) [0 ..< Suc n])
      in replicate d (replicate d 0))"

definition cmatrix_add :: "cmatrix \<Rightarrow> cmatrix \<Rightarrow> cmatrix" where
  "cmatrix_add a b = map2 (map2 (+)) a b"

definition cmatrix_mul :: "cmatrix \<Rightarrow> cmatrix \<Rightarrow> cmatrix" where
  "cmatrix_mul a b =
     map (\<lambda>i. map (\<lambda>j. \<Sum>k\<leftarrow>[0 ..< cmatrix_columns a]. cmatrix_at a i k * cmatrix_at b k j)
                 [0 ..< cmatrix_columns b])
       [0 ..< cmatrix_rows a]"

definition cmatrix_scale :: "real \<Rightarrow> cmatrix \<Rightarrow> cmatrix" where
  "cmatrix_scale x m = map (map (\<lambda>z. complex_of_real x * z)) m"

text \<open>
  Modelled from the spec: the helpers of namespace \<^verbatim>\<open>Utils\<close> (framework/utils.hpp)
  are missing: "squareness test, identity test, unitarity test, adjoint, all
  parameterized by a numerical tolerance". A matrix is the identity within a tolerance
  when it is square and no entry is further than the tolerance from the identity's; it
  is unitary within a tolerance when its adjoint times itself is the identity within it.
\<close>

definition Utils_dagger :: "cmatrix \<Rightarrow> cmatrix" where
  "Utils_dagger m =
     map (\<lambda>j. map (\<lambda>i. cnj (cmatrix_at m i j)) [0 ..< cmatrix_rows m])
       [0 ..< cmatrix_columns m]"

definition Utils_is_square :: "cmatrix \<Rightarrow> bool" where
  "Utils_is_square m = (cmatrix_rows m = cmatrix_columns m)"

definition Utils_is_identity :: "cmatrix \<Rightarrow> real \<Rightarrow> bool" where
  "Utils_is_identity m tol =
     (Utils_is_square m \<and>
      list_all (\<lambda>i. list_all (\<lambda>j. cmod (cmatrix_at m i j - (if i = j then 1 else 0)) \<le> tol)
                  [0 ..< cmatrix_columns m])
        [0 ..< cmatrix_rows m])"

definition Utils_is_unitary :: "cmatrix \<Rightarrow> real \<Rightarrow> bool" where
  "Utils_is_unitary m tol = Utils_is_identity (cmatrix_mul (Utils_dagger m) m) tol"

definition Utils :: "cmatrix linalg" where
  "Utils =
     \<lparr>mat_size = (\<lambda>m. cmatrix_rows m * cmatrix_columns m), mat_of_size = cmatrix_of_size,
      mat_add = cmatrix_add, mat_mul = cmatrix_mul, scalar_mul = cmatrix_scale,
      GetRows = cmatrix_rows, mat_at = cmatrix_at, dagger = Utils_dagger,
      is_square = Utils_is_square, is_identity = Utils_is_identity,
      is_unitary = Utils_is_unitary\<rparr>"

subsection \<open>Collaborators to run sample_noise on\<close>

text \<open>
  Modelled from the spec: the random sampler, "given a discrete probability
  distribution over a finite set of labeled outcomes, returns one label;
  deterministic given a fixed seed". The state of the source is the list of the
  uniform variates of \<open>[0, 1)\<close> it will produce; a draw takes the first one and walks
  the cumulative probabilities.
\<close>

fun pick :: "real list \<Rightarrow> real \<Rightarrow> nat" where
  "pick [] u = 0"
| "pick (w # ws) u = (if u < w then 0 else Suc (pick ws (u - w)))"

definition RngEngine_rand_int :: "real list \<Rightarrow> discrete_distribution \<Rightarrow> nat \<times> real list" where
  "RngEngine_rand_int rng probs =
     (case rng of
        [] \<Rightarrow> (0, [])
      | u # us \<Rightarrow> (pick (distribution_probabilities probs)
                     (u * sum_list (distribution_probabilities probs)), us))"

text \<open>
  Modelled from the spec: the sampling contracts of the two sub-channels. The unitary
  channel "draws one unitary according to its internal distribution and returns the
  equivalent gate-replacement operations"; the Kraus channel "stochastically applies
  the Kraus map and returns replacement operations (may be a no-op set if activation
  probability is zero)". An operation is the gate itself, a matrix to apply or a
  Kraus map to apply.
\<close>

datatype Op = Gate string | Mat cmatrix | Kraus "cmatrix list"

definition UnitaryError_sample ::
  "cmatrix UnitaryError \<Rightarrow> Op \<Rightarrow> nat list \<Rightarrow> real list \<Rightarrow> (error + Op list) \<times> real list" where
  "UnitaryError_sample e op qubits rng =
     (case RngEngine_rand_int rng (DiscreteDistribution (unitary_probabilities e)) of
        (r, rng') \<Rightarrow>
          if r < length (unitary_matrices e) then (Inr [op, Mat (unitary_matrices e ! r)], rng')
          else (Inr [op], rng'))"

definition KrausError_sample ::
  "cmatrix KrausError \<Rightarrow> Op \<Rightarrow> nat list \<Rightarrow> real list \<Rightarrow> (error + Op list) \<times> real list" where
  "KrausError_sample e op qubits rng =
     (case RngEngine_rand_int rng (DiscreteDistribution [1 - kraus_probability e, kraus_probability e]) of
        (r, rng') \<Rightarrow>
          if r = 1 then (Inr [op, Kraus (kraus_matrices e)], rng') else (Inr [op], rng'))"

definition Collaborators :: "(cmatrix, Op, nat list, real list) collaborators" where
  "Collaborators =
     \<lparr>rand_int = RngEngine_rand_int, UnitaryError_sample_noise = UnitaryError_sample,
      KrausError_sample_noise = KrausError_sample\<rparr>"

text \<open>
  A configured model to run \<open>sample_noise\<close> on: the distribution has the given
  probabilities, the unitary channel holds the Pauli matrix X, the Kraus channel the two
  operators of the reset to the state 0.
\<close>

definition example_model :: "real list \<Rightarrow> cmatrix GateError" where
  "example_model ws =
     \<lparr>probabilities = DiscreteDistribution ws,
      unitary_error = \<lparr>unitary_probabilities = [1], unitary_matrices = [[[0, 1], [1, 0]]]\<rparr>,
      kraus_error = \<lparr>kraus_matrices = [[[1, 0], [0, 0]], [[0, 1], [0, 0]]],
        kraus_probability = 1\<rparr>\<rparr>"

section \<open>Properties\<close>

subsection \<open>The weight and the classification loop\<close>

lemma foldl_add_sum_list: "foldl (\<lambda>p j. p + f j) a xs = a + sum_list (map f xs)"
  for a :: real
  by (induction xs arbitrary: a) simp_all

lemma weight_sum_list:
  "weight L mat = (\<Sum>j\<leftarrow>[0 ..< GetRows L mat]. cmod (mat_at L mat j 0 * cnj (mat_at L mat 0 j)))"
  unfolding weight_def by (simp add: foldl_add_sum_list)

lemma weight_nonneg: "0 \<le> weight L mat"
  unfolding weight_sum_list by (rule sum_list_nonneg) auto

lemma sum_list_all_zero: "(\<And>x. x \<in> set xs \<Longrightarrow> f x = 0) \<Longrightarrow> sum_list (map f xs) = 0"
  for f :: "'a \<Rightarrow> real"
  by (induction xs) simp_all

lemma weight_identity_entries:
  assumes rows: "0 < GetRows L M"
    and entries: "\<forall>i<GetRows L M. \<forall>j<GetRows L M. mat_at L M i j = (if i = j then 1 else 0)"
  shows "weight L M = 1"
proof -
  let ?f = "\<lambda>j. cmod (mat_at L M j 0 * cnj (mat_at L M 0 j))"
  have split: "[0 ..< GetRows L M] = 0 # [Suc 0 ..< GetRows L M]"
    using rows by (simp add: upt_conv_Cons)
  have first: "?f 0 = 1"
    using rows entries by simp
  have rest: "sum_list (map ?f [Suc 0 ..< GetRows L M]) = 0"
    using rows entries by (intro sum_list_all_zero) auto
  show ?thesis
    unfolding weight_sum_list split using first rest by simp
qed

lemma classify_Inl:
  "classify L s mat = Inl e \<longleftrightarrow> \<not> is_square L mat \<and> e = NonSquareOperator"
  by (auto simp: classify_def NonSquareOperator_def Let_def)

lemma classify_nonneg:
  assumes "classify L s mat = Inr s'" and "0 \<le> p_identity s" and "0 \<le> p_unitary s"
  shows "0 \<le> p_identity s' \<and> 0 \<le> p_unitary s'"
  using assms weight_nonneg [of L mat]
  by (auto simp: classify_def Let_def split: if_splits)

lemma classify_all_nonneg:
  "classify_all L s mats = Inr s' \<Longrightarrow> 0 \<le> p_identity s \<Longrightarrow> 0 \<le> p_unitary s
     \<Longrightarrow> 0 \<le> p_identity s' \<and> 0 \<le> p_unitary s'"
proof (induction mats arbitrary: s)
  case Nil
  then show ?case by simp
next
  case (Cons mat mats)
  from Cons.prems(1) obtain s1
    where s1: "classify L s mat = Inr s1" "classify_all L s1 mats = Inr s'"
    by (auto split: sum.splits)
  from classify_nonneg [OF s1(1) Cons.prems(2,3)] Cons.IH [OF s1(2)] show ?case
    by simp
qed

lemma classify_all_non_square:
  "\<exists>m \<in> set mats. \<not> is_square L m \<Longrightarrow> classify_all L s mats = Inl NonSquareOperator"
proof (induction mats arbitrary: s)
  case Nil
  then show ?case by simp
next
  case (Cons mat mats)
  show ?case
  proof (cases "classify L s mat")
    case (Inl e)
    then have "e = NonSquareOperator" by (simp add: classify_Inl)
    with Inl show ?thesis by simp
  next
    case (Inr s1)
    then have "is_square L mat"
      by (auto simp: classify_def split: if_splits)
    with Cons.prems have "\<exists>m \<in> set mats. \<not> is_square L m" by auto
    with Cons.IH Inr show ?thesis by simp
  qed
qed

subsection \<open>After the loop\<close>

lemma configure_Returns: "\<exists>g'. configure L p_error s g = Returns g'"
  by (simp add: configure_def Let_def threshold_def)

lemma make_discrete_distribution_normalised:
  "a + b + c = 1 \<Longrightarrow> make_discrete_distribution [a, b, c] = DiscreteDistribution [a, b, c]"
  by (simp add: make_discrete_distribution_def add.assoc)

lemma folded_weights_sum:
  "1 - p_error + p_error * a + p_error * b + p_error * (1 - a - b) = (1 :: real)"
  by (simp add: algebra_simps)

lemma configure_probabilities:
  "configure L p_error s g = Returns g' \<Longrightarrow>
     probabilities g' = DiscreteDistribution
       [1 - p_error + p_error * p_identity s, p_error * p_unitary s,
        p_error * (1 - p_identity s - p_unitary s)]"
  by (auto simp: configure_def Let_def threshold_def set_probabilities_def
      make_discrete_distribution_normalised [OF folded_weights_sum] split: if_splits)

lemma configure_sanity:
  "configure L p_error s g = Returns g' \<Longrightarrow>
     \<bar>p_identity s + p_unitary s + (1 - p_identity s - p_unitary s) - 1\<bar> \<le> threshold"
  by (auto simp: configure_def Let_def split: if_splits)

lemma set_from_ops_Returns:
  "set_from_ops L mats p_error g = Returns g' \<Longrightarrow>
     \<exists>m0 rest s. mats = m0 # rest \<and> is_identity L (cptp_sum L m0 mats) threshold \<and>
       classify_all L empty_partition mats = Inr s \<and> configure L p_error s g = Returns g'"
  by (auto simp: set_from_ops_def split: list.splits if_splits sum.splits)

lemma set_from_ops_identity:
  assumes "0 < GetRows L M"
    and "\<forall>i<GetRows L M. \<forall>j<GetRows L M. mat_at L M i j = (if i = j then 1 else 0)"
    and "is_square L M"
    and "is_identity L (cptp_sum L M [M]) threshold"
    and "is_identity L (scalar_mul L 1 M) threshold"
  shows "\<exists>g'. set_from_ops L [M] p_error g = Returns g' \<and>
           probabilities g' = DiscreteDistribution [1, 0, 0]"
proof -
  have w: "weight L M = 1"
    using assms(1,2) by (rule weight_identity_entries)
  have "classify L empty_partition M = Inr (empty_partition\<lparr>p_identity := 1\<rparr>)"
    using assms(3,5) by (simp add: classify_def w empty_partition_def)
  then have "set_from_ops L [M] p_error g =
      configure L p_error (empty_partition\<lparr>p_identity := 1\<rparr>) g"
    using assms(4) by (simp add: set_from_ops_def)
  moreover obtain g' where
    g': "configure L p_error (empty_partition\<lparr>p_identity := 1\<rparr>) g = Returns g'"
    using configure_Returns by blast
  moreover from configure_probabilities [OF g']
  have "probabilities g' = DiscreteDistribution [1, 0, 0]"
    by (simp add: empty_partition_def)
  ultimately show ?thesis by simp
qed

subsection \<open>Runs on concrete inputs\<close>

lemmas run_simps =
  cmatrix_rows_def cmatrix_columns_def cmatrix_at_def cmatrix_of_size_def cmatrix_add_def
  cmatrix_mul_def cmatrix_scale_def Utils_dagger_def Utils_is_square_def Utils_is_identity_def
  Utils_is_unitary_def Utils_def cptp_sum_def weight_def threshold_def classify_def
  configure_def set_from_ops_def empty_partition_def set_probabilities_def
  make_discrete_distribution_def
  UnitaryError_set_probabilities_def UnitaryError_set_unitaries_def KrausError_set_kraus_def
  KrausError_set_probability_def GateError_default_def Let_def upt_conv_Cons eval_nat_numeral

lemma run_pauli_x:
  "set_from_ops Utils [[[0, 1], [1, 0]]] (1 / 4) GateError_default =
     Returns \<lparr>probabilities = DiscreteDistribution [3 / 4, 1 / 4, 0],
       unitary_error = \<lparr>unitary_probabilities = [1], unitary_matrices = [[[0, 1], [1, 0]]]\<rparr>,
       kraus_error = \<lparr>kraus_matrices = [], kraus_probability = 0\<rparr>\<rparr>"
  by (simp add: run_simps)

lemma sqrt_tolerance_example:
  "sqrt (10000000000200000000001 / 10000000000000000000000) = 100000000001 / 100000000000"
  by (rule real_sqrt_unique) (simp_all add: power2_eq_square)

lemma run_identity_hyps:
  "0 < GetRows Utils [[1, 0], [0, 1]] \<and>
   (\<forall>i<GetRows Utils [[1, 0], [0, 1]]. \<forall>j<GetRows Utils [[1, 0], [0, 1]].
      mat_at Utils [[1, 0], [0, 1]] i j = (if i = j then 1 else 0)) \<and>
   is_square Utils [[1, 0], [0, 1]] \<and>
   is_identity Utils (cptp_sum Utils [[1, 0], [0, 1]] [[[1, 0], [0, 1]]]) threshold \<and>
   is_identity Utils (scalar_mul Utils 1 [[1, 0], [0, 1]]) threshold"
proof (intro conjI)
  show "\<forall>i<GetRows Utils [[1, 0], [0, 1]]. \<forall>j<GetRows Utils [[1, 0], [0, 1]].
      mat_at Utils [[1, 0], [0, 1]] i j = (if i = j then 1 else 0)"
    by (auto simp: Utils_def cmatrix_rows_def cmatrix_at_def less_Suc_eq)
qed (simp_all add: run_simps)

lemma run_pauli_x_partition:
  "classify_all Utils empty_partition [[[0, 1], [1, 0]]] =
     Inr \<lparr>p_identity = 0, p_unitary = 1, probs_unitaries = [1],
       unitaries = [[[0, 1], [1, 0]]], kraus = []\<rparr>"
  by (simp add: run_simps)

subsection \<open>The claims\<close>

text \<open>
  C1. The claim: the weight \<open>p\<close> of a matrix \<open>M\<close> is the real part of the (0,0) entry of
  \<open>M \<cdot> adjoint M\<close>, and \<open>M\<close> is dropped exactly when that value is 0. The loop of lines
  142 and 143 multiplies \<open>M(j, 0)\<close>, not \<open>M(0, j)\<close>, with the conjugate of \<open>M(0, j)\<close>.
  On the channel with the operators \<open>|0><1|\<close> and \<open>|0><0|\<close>, which passes the CPTP
  check, the first operator has the entry 1 and the weight 0: it is dropped, and the
  Kraus channel is left with the second operator alone.
\<close>

theorem weight_drops_operator:
  "Re (cmatrix_at (cmatrix_mul [[0, 1], [0, 0]] (Utils_dagger [[0, 1], [0, 0]])) 0 0) = 1 \<and>
   weight Utils [[0, 1], [0, 0]] = 0 \<and>
   set_from_ops Utils [[[0, 1], [0, 0]], [[1, 0], [0, 0]]] 1 GateError_default =
     Returns \<lparr>probabilities = DiscreteDistribution [0, 0, 1],
       unitary_error = \<lparr>unitary_probabilities = [], unitary_matrices = []\<rparr>,
       kraus_error = \<lparr>kraus_matrices = [[[1, 0], [0, 0]]], kraus_probability = 1\<rparr>\<rparr>"
  by (simp add: run_simps)

text \<open>
  C2. For every non-empty list of matrices whose sum of \<open>adjoint M \<cdot> M\<close> is not the
  identity within the tolerance, \<open>set_from_ops\<close> throws the InvalidChannel error,
  whatever the matrices are (no matrix is classified: the list may hold a matrix that
  is not square), and the model is in the state the call started with; the constructor
  from such a list throws the same error and constructs no model.
\<close>

theorem set_from_ops_invalid_channel:
  "mats \<noteq> [] \<Longrightarrow> \<not> is_identity L (cptp_sum L (hd mats) mats) threshold \<Longrightarrow>
     set_from_ops L mats p_error g = Throws InvalidChannel g \<and>
     GateError_from_mats L mats = Construction_throws InvalidChannel"
  by (cases mats)
    (simp_all add: GateError_from_mats_def set_from_ops_def InvalidChannel_def)

theorem set_from_ops_invalid_channel_witness:
  "[[[1, 0], [0, 0]], [[0, 0], [0, 0], [0, 0]]] \<noteq> ([] :: cmatrix list) \<and>
   \<not> is_identity Utils
       (cptp_sum Utils (hd [[[1, 0], [0, 0]], [[0, 0], [0, 0], [0, 0]]]) [[[1, 0], [0, 0]], [[0, 0], [0, 0], [0, 0]]])
       threshold \<and>
   set_from_ops Utils [[[1, 0], [0, 0]], [[0, 0], [0, 0], [0, 0]]] 1 GateError_default =
     Throws InvalidChannel GateError_default \<and>
   GateError_from_mats Utils [[[1, 0], [0, 0]], [[0, 0], [0, 0], [0, 0]]] =
     Construction_throws InvalidChannel"
proof -
  have ne: "[[[1, 0], [0, 0]], [[0, 0], [0, 0], [0, 0]]] \<noteq> ([] :: cmatrix list)"
    by simp
  have sum: "\<not> is_identity Utils
      (cptp_sum Utils (hd [[[1, 0], [0, 0]], [[0, 0], [0, 0], [0, 0]]]) [[[1, 0], [0, 0]], [[0, 0], [0, 0], [0, 0]]])
      threshold"
    by (simp add: run_simps)
  note inst = set_from_ops_invalid_channel [OF ne sum, of 1 GateError_default]
  show ?thesis
    by (intro conjI ne sum inst [THEN conjunct1] inst [THEN conjunct2])
qed

text \<open>
  C3, as the code has it. For every input that \<open>set_from_ops\<close> accepts, the weights
  \<open>p_identity\<close> and \<open>p_unitary\<close> are non-negative and the three weights, with
  \<open>p_kraus = 1 - p_identity - p_unitary\<close>, sum to 1 within the tolerance. The Kraus
  weight is inferred and can be negative.
\<close>

theorem recovered_weights_accepted:
  "set_from_ops L mats p_error g = Returns g' \<Longrightarrow>
     \<exists>s. classify_all L empty_partition mats = Inr s \<and>
       0 \<le> p_identity s \<and> 0 \<le> p_unitary s \<and>
       \<bar>p_identity s + p_unitary s + (1 - p_identity s - p_unitary s) - 1\<bar> \<le> threshold"
proof -
  assume "set_from_ops L mats p_error g = Returns g'"
  from set_from_ops_Returns [OF this] obtain s where
    s: "classify_all L empty_partition mats = Inr s" "configure L p_error s g = Returns g'"
    by blast
  from classify_all_nonneg [OF s(1)] have "0 \<le> p_identity s \<and> 0 \<le> p_unitary s"
    by (simp add: empty_partition_def)
  with s(1) configure_sanity [OF s(2)] show ?thesis by blast
qed

theorem recovered_weights_accepted_witness:
  "set_from_ops Utils [[[0, 1], [1, 0]]] (1 / 4) GateError_default =
     Returns \<lparr>probabilities = DiscreteDistribution [3 / 4, 1 / 4, 0],
       unitary_error = \<lparr>unitary_probabilities = [1], unitary_matrices = [[[0, 1], [1, 0]]]\<rparr>,
       kraus_error = \<lparr>kraus_matrices = [], kraus_probability = 0\<rparr>\<rparr> \<and>
   (\<exists>s. classify_all Utils empty_partition [[[0, 1], [1, 0]]] = Inr s \<and>
       0 \<le> p_identity s \<and> 0 \<le> p_unitary s \<and>
       \<bar>p_identity s + p_unitary s + (1 - p_identity s - p_unitary s) - 1\<bar> \<le> threshold)"
  using run_pauli_x recovered_weights_accepted [OF run_pauli_x] by blast

text \<open>
  C3, as stated, fails: the one-by-one matrix with the entry \<^verbatim>\<open>1 + 1e-11\<close> is a CPTP map
  within the tolerance, it is accepted, it is the identity after rescaling, and the
  Kraus weight is negative.
\<close>

theorem recovered_kraus_weight_negative:
  "classify_all Utils empty_partition [[[100000000001 / 100000000000]]] =
     Inr \<lparr>p_identity = 10000000000200000000001 / 10000000000000000000000, p_unitary = 0,
          probs_unitaries = [], unitaries = [], kraus = []\<rparr> \<and>
   set_from_ops Utils [[[100000000001 / 100000000000]]] 1 GateError_default =
     Returns \<lparr>probabilities = DiscreteDistribution
         [10000000000200000000001 / 10000000000000000000000, 0,
          - (200000000001 / 10000000000000000000000)],
       unitary_error = \<lparr>unitary_probabilities = [], unitary_matrices = []\<rparr>,
       kraus_error = \<lparr>kraus_matrices = [], kraus_probability = 0\<rparr>\<rparr> \<and>
   1 - 10000000000200000000001 / 10000000000000000000000 - 0 < (0 :: real)"
  by (simp add: run_simps sqrt_tolerance_example)

text \<open>
  C4. After a successful call the distribution is built from the weights
  \<open>1 - p_error + p_error * p_identity\<close>, \<open>p_error * p_unitary\<close> and
  \<open>p_error * p_kraus\<close>, in this order, where \<open>p_kraus = 1 - p_identity - p_unitary\<close>.
  For the input that holds one identity matrix (of any dimension, accepted by the
  identity test before and after the rescaling by 1) the weights are 1, 0 and 0,
  whatever \<open>p_error\<close> is.
\<close>

theorem set_from_ops_distribution:
  "(set_from_ops L mats p_error g = Returns g' \<longrightarrow>
      (\<exists>s. classify_all L empty_partition mats = Inr s \<and>
         probabilities g' = DiscreteDistribution
           [1 - p_error + p_error * p_identity s, p_error * p_unitary s,
            p_error * (1 - p_identity s - p_unitary s)])) \<and>
   (0 < GetRows L M \<and>
    (\<forall>i<GetRows L M. \<forall>j<GetRows L M. mat_at L M i j = (if i = j then 1 else 0)) \<and>
    is_square L M \<and> is_identity L (cptp_sum L M [M]) threshold \<and>
    is_identity L (scalar_mul L 1 M) threshold \<longrightarrow>
      (\<exists>g''. set_from_ops L [M] p_error g = Returns g'' \<and>
         probabilities g'' = DiscreteDistribution [1, 0, 0]))"
proof (intro conjI impI)
  assume "set_from_ops L mats p_error g = Returns g'"
  from set_from_ops_Returns [OF this] obtain s where
    "classify_all L empty_partition mats = Inr s" "configure L p_error s g = Returns g'"
    by blast
  then show "\<exists>s. classify_all L empty_partition mats = Inr s \<and>
      probabilities g' = DiscreteDistribution
        [1 - p_error + p_error * p_identity s, p_error * p_unitary s,
         p_error * (1 - p_identity s - p_unitary s)]"
    using configure_probabilities [of L p_error s g g'] by (intro exI [of _ s]) simp
next
  assume h: "0 < GetRows L M \<and>
    (\<forall>i<GetRows L M. \<forall>j<GetRows L M. mat_at L M i j = (if i = j then 1 else 0)) \<and>
    is_square L M \<and> is_identity L (cptp_sum L M [M]) threshold \<and>
    is_identity L (scalar_mul L 1 M) threshold"
  show "\<exists>g''. set_from_ops L [M] p_error g = Returns g'' \<and>
      probabilities g'' = DiscreteDistribution [1, 0, 0]"
    by (rule set_from_ops_identity
        [OF h [THEN conjunct1] h [THEN conjunct2, THEN conjunct1]
          h [THEN conjunct2, THEN conjunct2, THEN conjunct1]
          h [THEN conjunct2, THEN conjunct2, THEN conjunct2, THEN conjunct1]
          h [THEN conjunct2, THEN conjunct2, THEN conjunct2, THEN conjunct2]])
qed

theorem set_from_ops_distribution_witness:
  "set_from_ops Utils [[[0, 1], [1, 0]]] (1 / 4) GateError_default =
     Returns \<lparr>probabilities = DiscreteDistribution [3 / 4, 1 / 4, 0],
       unitary_error = \<lparr>unitary_probabilities = [1], unitary_matrices = [[[0, 1], [1, 0]]]\<rparr>,
       kraus_error = \<lparr>kraus_matrices = [], kraus_probability = 0\<rparr>\<rparr> \<and>
   (\<exists>s. classify_all Utils empty_partition [[[0, 1], [1, 0]]] = Inr s \<and>
      DiscreteDistribution [3 / 4, 1 / 4, 0] = DiscreteDistribution
        [1 - 1 / 4 + 1 / 4 * p_identity s, 1 / 4 * p_unitary s,
         1 / 4 * (1 - p_identity s - p_unitary s)]) \<and>
   (\<exists>g''. set_from_ops Utils [[[1, 0], [0, 1]]] (1 / 2) GateError_default = Returns g'' \<and>
      probabilities g'' = DiscreteDistribution [1, 0, 0])"
proof -
  note inst = set_from_ops_distribution
    [of Utils "[[[0, 1], [1, 0]]]" _ GateError_default _ "[[1, 0], [0, 1]]"]
  from inst [of "1 / 4", THEN conjunct1, rule_format, OF run_pauli_x]
  have general: "\<exists>s. classify_all Utils empty_partition [[[0, 1], [1, 0]]] = Inr s \<and>
      DiscreteDistribution [3 / 4, 1 / 4, 0] = DiscreteDistribution
        [1 - 1 / 4 + 1 / 4 * p_identity s, 1 / 4 * p_unitary s,
         1 / 4 * (1 - p_identity s - p_unitary s)]"
    unfolding run_pauli_x_partition by simp
  from inst [of "1 / 2", THEN conjunct2, rule_format, OF run_identity_hyps]
  have particular:
    "\<exists>g''. set_from_ops Utils [[[1, 0], [0, 1]]] (1 / 2) GateError_default = Returns g'' \<and>
      probabilities g'' = DiscreteDistribution [1, 0, 0]" .
  show ?thesis
    by (intro conjI run_pauli_x general particular)
qed

text \<open>
  C5, as the code has it. When the list of Kraus candidates is empty after the
  classification, \<open>set_from_ops\<close> throws nothing: it returns, with the Kraus channel
  holding no operator and the activation probability 0, and with the Kraus entry
  \<open>p_error * p_kraus\<close> of the distribution as computed, zero or not.
\<close>

theorem set_from_ops_empty_kraus:
  "mats \<noteq> [] \<Longrightarrow> is_identity L (cptp_sum L (hd mats) mats) threshold \<Longrightarrow>
   classify_all L empty_partition mats = Inr s \<Longrightarrow> kraus s = [] \<Longrightarrow>
     \<exists>g'. set_from_ops L mats p_error g = Returns g' \<and>
       kraus_matrices (kraus_error g') = [] \<and> kraus_probability (kraus_error g') = 0 \<and>
       probabilities g' = DiscreteDistribution
         [1 - p_error + p_error * p_identity s, p_error * p_unitary s,
          p_error * (1 - p_identity s - p_unitary s)]"
  by (cases mats)
    (simp_all add: set_from_ops_def configure_def Let_def threshold_def set_probabilities_def
      make_discrete_distribution_normalised [OF folded_weights_sum]
      KrausError_set_kraus_def KrausError_set_probability_def)

lemma run_dropped_partition:
  "classify_all Utils empty_partition [[[0, 0], [1, 0]], [[0, 0], [0, 1]]] =
     Inr \<lparr>p_identity = 0, p_unitary = 0, probs_unitaries = [], unitaries = [], kraus = []\<rparr>"
  by (simp add: run_simps)

lemma run_dropped_cptp:
  "is_identity Utils
     (cptp_sum Utils (hd [[[0, 0], [1, 0]], [[0, 0], [0, 1]]])
        [[[0, 0], [1, 0]], [[0, 0], [0, 1]]]) threshold"
  by (simp add: run_simps)

theorem set_from_ops_empty_kraus_witness:
  "[[[0, 0], [1, 0]], [[0, 0], [0, 1]]] \<noteq> ([] :: cmatrix list) \<and>
   is_identity Utils
     (cptp_sum Utils (hd [[[0, 0], [1, 0]], [[0, 0], [0, 1]]])
        [[[0, 0], [1, 0]], [[0, 0], [0, 1]]]) threshold \<and>
   classify_all Utils empty_partition [[[0, 0], [1, 0]], [[0, 0], [0, 1]]] =
     Inr \<lparr>p_identity = 0, p_unitary = 0, probs_unitaries = [], unitaries = [], kraus = []\<rparr> \<and>
   (\<exists>g'. set_from_ops Utils [[[0, 0], [1, 0]], [[0, 0], [0, 1]]] (1 / 2) GateError_default =
       Returns g' \<and>
     kraus_matrices (kraus_error g') = [] \<and> kraus_probability (kraus_error g') = 0 \<and>
     probabilities g' = DiscreteDistribution [1 / 2, 0, 1 / 2])"
proof -
  have ne: "[[[0, 0], [1, 0]], [[0, 0], [0, 1]]] \<noteq> ([] :: cmatrix list)"
    by simp
  from set_from_ops_empty_kraus
    [OF ne run_dropped_cptp run_dropped_partition, of "1 / 2" GateError_default]
  have "\<exists>g'. set_from_ops Utils [[[0, 0], [1, 0]], [[0, 0], [0, 1]]] (1 / 2) GateError_default =
       Returns g' \<and>
     kraus_matrices (kraus_error g') = [] \<and> kraus_probability (kraus_error g') = 0 \<and>
     probabilities g' = DiscreteDistribution [1 / 2, 0, 1 / 2]"
    by simp
  then show ?thesis
    by (intro conjI ne run_dropped_cptp run_dropped_partition)
qed

text \<open>
  C5, as stated, fails: the two operators \<open>|1><0|\<close> and \<open>|1><1|\<close> form a CPTP map, both
  have weight 0 and are dropped, the list of Kraus candidates is empty and the Kraus
  entry of the distribution is 1; the call returns.
\<close>

theorem empty_kraus_branch_returns:
  "set_from_ops Utils [[[0, 0], [1, 0]], [[0, 0], [0, 1]]] 1 GateError_default =
     Returns \<lparr>probabilities = DiscreteDistribution [0, 0, 1],
       unitary_error = \<lparr>unitary_probabilities = [], unitary_matrices = []\<rparr>,
       kraus_error = \<lparr>kraus_matrices = [], kraus_probability = 0\<rparr>\<rparr> \<and>
   set_from_ops Utils [[[0, 0], [1, 0]], [[0, 0], [0, 1]]] 1 GateError_default \<noteq>
     Throws InvalidDecomposition GateError_default"
  by (simp add: run_simps)

text \<open>
  C6. \<open>sample_noise\<close> draws one label from the distribution of the model. On the label
  0 (identity) it returns the operation alone; on the label 1 (unitary) or 2 (Kraus) it
  returns what the \<open>sample_noise\<close> of that sub-channel returns for the same operation
  and qubits and the randomness source as the draw left it; on every other label it
  throws the UnreachableState error.
\<close>

theorem sample_noise_dispatch:
  "rand_int C rng (probabilities g) = (noise_type, rng') \<Longrightarrow>
     (noise_type = 0 \<longrightarrow> sample_noise C g op qubits rng = (Inr [op], rng')) \<and>
     (noise_type = 1 \<longrightarrow>
        sample_noise C g op qubits rng =
          UnitaryError_sample_noise C (unitary_error g) op qubits rng') \<and>
     (noise_type = 2 \<longrightarrow>
        sample_noise C g op qubits rng =
          KrausError_sample_noise C (kraus_error g) op qubits rng') \<and>
     (2 < noise_type \<longrightarrow> sample_noise C g op qubits rng = (Inl UnreachableState, rng'))"
  by (simp add: sample_noise_def UnreachableState_def)

lemmas sample_simps =
  Collaborators_def RngEngine_rand_int_def UnitaryError_sample_def KrausError_sample_def
  example_model_def

lemma run_rand_int:
  "rand_int Collaborators [1 / 2, 1 / 4] (probabilities (example_model [1, 0, 0])) = (0, [1 / 4])"
  "rand_int Collaborators [1 / 2, 1 / 4] (probabilities (example_model [0, 1, 0])) = (1, [1 / 4])"
  "rand_int Collaborators [1 / 2, 1 / 4] (probabilities (example_model [0, 0, 1])) = (2, [1 / 4])"
  "rand_int Collaborators [1 / 2, 1 / 4] (probabilities (example_model [0, 0, 0, 1])) = (3, [1 / 4])"
  by (simp_all add: sample_simps)

theorem sample_noise_dispatch_witness:
  "sample_noise Collaborators (example_model [1, 0, 0]) (Gate ''x'') [0] [1 / 2, 1 / 4] =
     (Inr [Gate ''x''], [1 / 4]) \<and>
   sample_noise Collaborators (example_model [0, 1, 0]) (Gate ''x'') [0] [1 / 2, 1 / 4] =
     (Inr [Gate ''x'', Mat [[0, 1], [1, 0]]], []) \<and>
   sample_noise Collaborators (example_model [0, 0, 1]) (Gate ''x'') [0] [1 / 2, 1 / 4] =
     (Inr [Gate ''x'', Kraus [[[1, 0], [0, 0]], [[0, 1], [0, 0]]]], []) \<and>
   sample_noise Collaborators (example_model [0, 0, 0, 1]) (Gate ''x'') [0] [1 / 2, 1 / 4] =
     (Inl UnreachableState, [1 / 4])"
proof -
  note d = sample_noise_dispatch [where op = "Gate ''x''" and qubits = "[0]"]
  have "sample_noise Collaborators (example_model [1, 0, 0]) (Gate ''x'') [0] [1 / 2, 1 / 4] =
      (Inr [Gate ''x''], [1 / 4])"
    using d [OF run_rand_int(1)] by simp
  moreover
  have "sample_noise Collaborators (example_model [0, 1, 0]) (Gate ''x'') [0] [1 / 2, 1 / 4] =
      (Inr [Gate ''x'', Mat [[0, 1], [1, 0]]], [])"
    using d [OF run_rand_int(2)] by (simp add: sample_simps)
  moreover
  have "sample_noise Collaborators (example_model [0, 0, 1]) (Gate ''x'') [0] [1 / 2, 1 / 4] =
      (Inr [Gate ''x'', Kraus [[[1, 0], [0, 0]], [[0, 1], [0, 0]]]], [])"
    using d [OF run_rand_int(3)] by (simp add: sample_simps)
  moreover
  have "sample_noise Collaborators (example_model [0, 0, 0, 1]) (Gate ''x'') [0] [1 / 2, 1 / 4] =
      (Inl UnreachableState, [1 / 4])"
    using d [OF run_rand_int(4)] by simp
  ultimately show ?thesis by (intro conjI)
qed

text \<open>
  C7, as the code has it. For every non-empty list of matrices that passes the CPTP
  check and holds a matrix that is not square, \<open>set_from_ops\<close> throws the
  NonSquareOperator error, and the model is in the state the call started with. The
  check of squareness is the first statement of the classification loop: the matrices
  before the first one that is not square have been classified by then.
\<close>

theorem set_from_ops_non_square:
  "mats \<noteq> [] \<Longrightarrow> is_identity L (cptp_sum L (hd mats) mats) threshold \<Longrightarrow>
   \<exists>m \<in> set mats. \<not> is_square L m \<Longrightarrow>
     set_from_ops L mats p_error g = Throws NonSquareOperator g"
  using classify_all_non_square [of mats L empty_partition]
  by (cases mats) (simp_all add: set_from_ops_def)

lemma run_non_square_cptp:
  "is_identity Utils
     (cptp_sum Utils (hd [[[1, 0], [0, 1]], [[0, 0], [0, 0], [0, 0]]])
        [[[1, 0], [0, 1]], [[0, 0], [0, 0], [0, 0]]]) threshold"
  by (simp add: run_simps)

theorem set_from_ops_non_square_witness:
  "[[[1, 0], [0, 1]], [[0, 0], [0, 0], [0, 0]]] \<noteq> ([] :: cmatrix list) \<and>
   is_identity Utils
     (cptp_sum Utils (hd [[[1, 0], [0, 1]], [[0, 0], [0, 0], [0, 0]]])
        [[[1, 0], [0, 1]], [[0, 0], [0, 0], [0, 0]]]) threshold \<and>
   (\<exists>m \<in> set [[[1, 0], [0, 1]], [[0, 0], [0, 0], [0, 0]]]. \<not> is_square Utils m) \<and>
   set_from_ops Utils [[[1, 0], [0, 1]], [[0, 0], [0, 0], [0, 0]]] 1 GateError_default =
     Throws NonSquareOperator GateError_default"
proof -
  have ne: "[[[1, 0], [0, 1]], [[0, 0], [0, 0], [0, 0]]] \<noteq> ([] :: cmatrix list)"
    by simp
  have ns: "\<exists>m \<in> set [[[1, 0], [0, 1]], [[0, 0], [0, 0], [0, 0]]]. \<not> is_square Utils m"
    by (simp add: Utils_def Utils_is_square_def cmatrix_rows_def cmatrix_columns_def)
  show ?thesis
    by (intro conjI ne run_non_square_cptp ns
        set_from_ops_non_square [OF ne run_non_square_cptp ns])
qed

text \<open>
  C7, as stated, fails: a list that holds a matrix that is not square and does not pass
  the CPTP check throws the InvalidChannel error.
\<close>

theorem non_square_invalid_channel:
  "\<not> is_square Utils [[1, 0], [0, 0], [0, 0]] \<and>
   set_from_ops Utils [[[1, 0], [0, 1]], [[1, 0], [0, 0], [0, 0]]] 1 GateError_default =
     Throws InvalidChannel GateError_default \<and>
   set_from_ops Utils [[[1, 0], [0, 1]], [[1, 0], [0, 0], [0, 0]]] 1 GateError_default \<noteq>
     Throws NonSquareOperator GateError_default"
  by (simp add: run_simps InvalidChannel_def NonSquareOperator_def)

text \<open>
  C8, as the code has it. \<open>set_probabilities\<close> hands exactly the three values it is
  given, in the order identity, unitary, Kraus, to the constructor of the distribution
  as weights, divides by nothing itself and changes no other member. For values that
  are not negative and have a positive sum (what the constructor requires) the
  distribution built holds each value divided by the sum of the three: the values are
  stored as they are given if and only if they sum to 1.
\<close>

theorem set_probabilities_normalised:
  "0 \<le> p_id \<Longrightarrow> 0 \<le> p_un \<Longrightarrow> 0 \<le> p_kr \<Longrightarrow> 0 < p_id + p_un + p_kr \<Longrightarrow>
     probabilities (set_probabilities p_id p_un p_kr g) =
       make_discrete_distribution [p_id, p_un, p_kr] \<and>
     probabilities (set_probabilities p_id p_un p_kr g) =
       DiscreteDistribution
         [p_id / (p_id + p_un + p_kr), p_un / (p_id + p_un + p_kr),
          p_kr / (p_id + p_un + p_kr)] \<and>
     (probabilities (set_probabilities p_id p_un p_kr g) = DiscreteDistribution [p_id, p_un, p_kr]
        \<longleftrightarrow> p_id + p_un + p_kr = 1) \<and>
     unitary_error (set_probabilities p_id p_un p_kr g) = unitary_error g \<and>
     kraus_error (set_probabilities p_id p_un p_kr g) = kraus_error g"
proof -
  assume nonneg: "0 \<le> p_id" "0 \<le> p_un" "0 \<le> p_kr" and pos: "0 < p_id + p_un + p_kr"
  let ?S = "p_id + p_un + p_kr"
  have stored: "probabilities (set_probabilities p_id p_un p_kr g) =
      DiscreteDistribution [p_id / ?S, p_un / ?S, p_kr / ?S]"
    by (simp add: set_probabilities_def make_discrete_distribution_def add.assoc)
  have exact: "(p_id / ?S = p_id \<and> p_un / ?S = p_un \<and> p_kr / ?S = p_kr) \<longleftrightarrow> ?S = 1"
  proof
    assume same: "p_id / ?S = p_id \<and> p_un / ?S = p_un \<and> p_kr / ?S = p_kr"
    note e = same [THEN conjunct1] same [THEN conjunct2, THEN conjunct1]
      same [THEN conjunct2, THEN conjunct2]
    have "?S = p_id / ?S + p_un / ?S + p_kr / ?S"
      by (simp only: e)
    also have "\<dots> = ?S / ?S"
      by (simp only: add_divide_distrib)
    also have "\<dots> = 1"
      using pos by simp
    finally show "?S = 1" .
  next
    assume "?S = 1"
    then show "p_id / ?S = p_id \<and> p_un / ?S = p_un \<and> p_kr / ?S = p_kr" by simp
  qed
  have made: "probabilities (set_probabilities p_id p_un p_kr g) =
      make_discrete_distribution [p_id, p_un, p_kr]"
    by (simp add: set_probabilities_def)
  have as_given: "probabilities (set_probabilities p_id p_un p_kr g) =
      DiscreteDistribution [p_id, p_un, p_kr] \<longleftrightarrow> ?S = 1"
    unfolding stored using exact by simp
  have others: "unitary_error (set_probabilities p_id p_un p_kr g) = unitary_error g"
    "kraus_error (set_probabilities p_id p_un p_kr g) = kraus_error g"
    by (simp_all add: set_probabilities_def)
  show ?thesis
    by (intro conjI made stored as_given others)
qed

theorem set_probabilities_normalised_witness:
  "(0 :: real) \<le> 2 \<and> (0 :: real) \<le> 1 \<and> (0 :: real) < 2 + 1 + 1 \<and>
   probabilities (set_probabilities 2 1 1 (GateError_default :: cmatrix GateError)) =
     DiscreteDistribution [2 / (2 + 1 + 1), 1 / (2 + 1 + 1), 1 / (2 + 1 + 1)] \<and>
   probabilities (set_probabilities (1 / 2) (1 / 4) (1 / 4) (GateError_default :: cmatrix GateError)) =
     DiscreteDistribution [1 / 2, 1 / 4, 1 / 4]"
proof -
  have a: "(0 :: real) \<le> 2" and b: "(0 :: real) \<le> 1" and c: "(0 :: real) < 2 + 1 + 1"
    by simp_all
  note unnormalised =
    set_probabilities_normalised [OF a b b c, of "GateError_default :: cmatrix GateError"]
  have a': "(0 :: real) \<le> 1 / 2" and b': "(0 :: real) \<le> 1 / 4"
    and c': "(0 :: real) < 1 / 2 + 1 / 4 + 1 / 4"
    by simp_all
  note normalised =
    set_probabilities_normalised [OF a' b' b' c', of "GateError_default :: cmatrix GateError"]
  have one: "(1 / 2 + 1 / 4 + 1 / 4 :: real) = 1"
    by simp
  show ?thesis
    by (intro conjI a b c unnormalised [THEN conjunct2, THEN conjunct1]
        normalised [THEN conjunct2, THEN conjunct2, THEN conjunct1, THEN iffD2, OF one])
qed

text \<open>
  C8, as stated, fails: of the values 2, 1 and 1 the distribution stores the
  probabilities 1/2, 1/4 and 1/4.
\<close>

theorem set_probabilities_renormalises:
  "probabilities (set_probabilities 2 1 1 (GateError_default :: cmatrix GateError)) =
     DiscreteDistribution [1 / 2, 1 / 4, 1 / 4] \<and>
   probabilities (set_probabilities 2 1 1 (GateError_default :: cmatrix GateError)) \<noteq>
     DiscreteDistribution [2, 1, 1]"
  by (simp add: set_probabilities_def make_discrete_distribution_def)

subsection \<open>Determinism of sample_noise\<close>

lemma sample_noise_rel_draw:
  "sample_noise_rel R g op qubits rng n res \<longleftrightarrow>
     (\<exists>rng'. rand_int_rel R rng (probabilities g) (n, rng') \<and>
        (if n = 0 then res = (Inr [op], rng')
         else if n = 1 then UnitaryError_sample_noise_rel R (unitary_error g) op qubits rng' res
         else if n = 2 then KrausError_sample_noise_rel R (kraus_error g) op qubits rng' res
         else res = (Inl (invalid_argument ''GateError type is out of range.''), rng')))"
  by (auto simp: sample_noise_rel.simps)

lemma sample_noise_rel_deterministic:
  assumes det: "deterministic_collaborators R"
    and a: "sample_noise_rel R g op qubits rng n res"
    and b: "sample_noise_rel R g op qubits rng n' res'"
  shows "n = n' \<and> res = res'"
proof -
  from a obtain r where r: "rand_int_rel R rng (probabilities g) (n, r)"
    and res: "if n = 0 then res = (Inr [op], r)
         else if n = 1 then UnitaryError_sample_noise_rel R (unitary_error g) op qubits r res
         else if n = 2 then KrausError_sample_noise_rel R (kraus_error g) op qubits r res
         else res = (Inl (invalid_argument ''GateError type is out of range.''), r)"
    unfolding sample_noise_rel_draw by blast
  from b obtain r' where r': "rand_int_rel R rng (probabilities g) (n', r')"
    and res': "if n' = 0 then res' = (Inr [op], r')
         else if n' = 1 then UnitaryError_sample_noise_rel R (unitary_error g) op qubits r' res'
         else if n' = 2 then KrausError_sample_noise_rel R (kraus_error g) op qubits r' res'
         else res' = (Inl (invalid_argument ''GateError type is out of range.''), r')"
    unfolding sample_noise_rel_draw by blast
  from det r r' have "(n, r) = (n', r')"
    unfolding deterministic_collaborators_def by blast
  then have same: "n' = n" "r' = r" by simp_all
  have unitary: "x = y"
    if "UnitaryError_sample_noise_rel R (unitary_error g) op qubits r x"
      "UnitaryError_sample_noise_rel R (unitary_error g) op qubits r y" for x y
    using det that unfolding deterministic_collaborators_def by blast
  have kraus: "x = y"
    if "KrausError_sample_noise_rel R (kraus_error g) op qubits r x"
      "KrausError_sample_noise_rel R (kraus_error g) op qubits r y" for x y
    using det that unfolding deterministic_collaborators_def by blast
  from res res' unitary kraus show ?thesis
    unfolding same by (auto split: if_splits)
qed

lemma sample_calls_rel_Nil: "sample_calls_rel R g [] rng out \<longleftrightarrow> out = ([], rng)"
  by (auto intro: sample_calls_rel.intros elim: sample_calls_rel.cases)

lemma sample_calls_rel_Cons:
  "sample_calls_rel R g ((op, qubits) # calls) rng out \<longleftrightarrow>
     (\<exists>n e rng'. sample_noise_rel R g op qubits rng n (Inl e, rng') \<and>
        out = ([(n, Inl e)], rng')) \<or>
     (\<exists>n ops rng' rs rng''. sample_noise_rel R g op qubits rng n (Inr ops, rng') \<and>
        sample_calls_rel R g calls rng' (rs, rng'') \<and> out = ((n, Inr ops) # rs, rng''))"
  by (subst sample_calls_rel.simps) auto

lemma sample_calls_rel_deterministic:
  assumes det: "deterministic_collaborators R"
  shows "sample_calls_rel R g calls rng out \<Longrightarrow> sample_calls_rel R g calls rng out' \<Longrightarrow> out = out'"
proof (induction calls arbitrary: rng out out')
  case Nil
  then show ?case by (simp add: sample_calls_rel_Nil)
next
  case (Cons call calls)
  obtain op qubits where call: "call = (op, qubits)"
    by (cases call)
  note first = sample_noise_rel_deterministic [OF det, of g op qubits rng]
  from Cons.prems(1) consider
    (throws) n e r where "sample_noise_rel R g op qubits rng n (Inl e, r)"
      "out = ([(n, Inl e)], r)"
  | (returns) n ops r rs r2 where "sample_noise_rel R g op qubits rng n (Inr ops, r)"
      "sample_calls_rel R g calls r (rs, r2)" "out = ((n, Inr ops) # rs, r2)"
    unfolding call sample_calls_rel_Cons by blast
  then show ?case
  proof cases
    case throws
    from Cons.prems(2) consider
      (throws') n' e' r' where "sample_noise_rel R g op qubits rng n' (Inl e', r')"
        "out' = ([(n', Inl e')], r')"
    | (returns') n' ops' r' rs' r2' where "sample_noise_rel R g op qubits rng n' (Inr ops', r')"
        "sample_calls_rel R g calls r' (rs', r2')" "out' = ((n', Inr ops') # rs', r2')"
      unfolding call sample_calls_rel_Cons by blast
    then show ?thesis
    proof cases
      case throws'
      with throws first [OF throws(1) throws'(1)] show ?thesis by simp
    next
      case returns'
      with throws first [OF throws(1) returns'(1)] show ?thesis by simp
    qed
  next
    case returns
    from Cons.prems(2) consider
      (throws') n' e' r' where "sample_noise_rel R g op qubits rng n' (Inl e', r')"
        "out' = ([(n', Inl e')], r')"
    | (returns') n' ops' r' rs' r2' where "sample_noise_rel R g op qubits rng n' (Inr ops', r')"
        "sample_calls_rel R g calls r' (rs', r2')" "out' = ((n', Inr ops') # rs', r2')"
      unfolding call sample_calls_rel_Cons by blast
    then show ?thesis
    proof cases
      case throws'
      with returns first [OF returns(1) throws'(1)] show ?thesis by simp
    next
      case returns'
      from first [OF returns(1) returns'(1)]
      have same: "n' = n" "ops' = ops" "r' = r" by simp_all
      from returns'(2) have "sample_calls_rel R g calls r (rs', r2')"
        unfolding same .
      from Cons.IH [OF returns(2) this] returns(3) returns'(3) same show ?thesis by simp
    qed
  qed
qed

lemma deterministic_relations_of: "deterministic_collaborators (relations_of C)"
  by (simp add: deterministic_collaborators_def relations_of_def)

lemma sample_noise_rel_relations_of:
  "sample_noise_rel (relations_of C) g op qubits rng n res \<longleftrightarrow>
     n = fst (rand_int C rng (probabilities g)) \<and> res = sample_noise C g op qubits rng"
  unfolding sample_noise_rel_draw
  by (cases "rand_int C rng (probabilities g)") (auto simp: relations_of_def sample_noise_def)

lemma sample_calls_rel_relations_of:
  "sample_calls_rel (relations_of C) g calls rng out \<longleftrightarrow> out = sample_run C g calls rng"
proof (induction calls arbitrary: rng out)
  case Nil
  show ?case by (simp add: sample_calls_rel_Nil)
next
  case (Cons call calls)
  obtain op qubits where call: "call = (op, qubits)"
    by (cases call)
  show ?case
    unfolding call sample_calls_rel_Cons sample_noise_rel_relations_of Cons.IH
    by (cases "sample_noise C g op qubits rng"; cases "fst (sample_noise C g op qubits rng)";
        cases "sample_run C g calls (snd (sample_noise C g op qubits rng))")
      (auto simp: Let_def)
qed

text \<open>
  The hypothesis on the collaborators is needed: with a draw that may return the label
  0 or the label 3 for the same state of the source, one call has two outcomes.
\<close>

lemma sample_noise_rel_two_outcomes:
  "sample_noise_rel
     \<lparr>rand_int_rel = (\<lambda>rng probs x. x = (0, rng) \<or> x = (3, rng)),
      UnitaryError_sample_noise_rel = (\<lambda>e op qubits rng x. False),
      KrausError_sample_noise_rel = (\<lambda>e op qubits rng x. False)\<rparr>
     (example_model [1, 0, 0]) (Gate ''x'') [0 :: nat] (0 :: nat) 0 (Inr [Gate ''x''], 0) \<and>
   sample_noise_rel
     \<lparr>rand_int_rel = (\<lambda>rng probs x. x = (0, rng) \<or> x = (3, rng)),
      UnitaryError_sample_noise_rel = (\<lambda>e op qubits rng x. False),
      KrausError_sample_noise_rel = (\<lambda>e op qubits rng x. False)\<rparr>
     (example_model [1, 0, 0]) (Gate ''x'') [0 :: nat] (0 :: nat) 3 (Inl UnreachableState, 0)"
  by (simp add: sample_noise_rel_draw UnreachableState_def)

lemma run_sample_run:
  "sample_run Collaborators (example_model [1 / 2, 1 / 4, 1 / 4])
     [(Gate ''x'', [0]), (Gate ''h'', [1]), (Gate ''x'', [0])] [7 / 8, 1 / 2, 1 / 4, 5 / 8, 0] =
   ([(2, Inr [Gate ''x'', Kraus [[[1, 0], [0, 0]], [[0, 1], [0, 0]]]]),
     (0, Inr [Gate ''h'']),
     (1, Inr [Gate ''x'', Mat [[0, 1], [1, 0]]])], [])"
  by (simp add: sample_noise_def sample_simps)

text \<open>
  C9. \<open>sample_noise\<close> adds no randomness of its own: when the draw of the randomness
  source and the two sub-channels' samplers are deterministic in what they are given
  (the members of the model, the operation, the qubits, the state of the source), two
  calls on the same model with sources in the same state draw the same branch, return
  the same operations and leave the sources in the same state, and two runs of
  repeated calls agree in the whole sequence of branches and results.
\<close>

theorem sample_noise_deterministic:
  "deterministic_collaborators R \<Longrightarrow>
     (sample_noise_rel R g op qubits rng n res \<longrightarrow>
      sample_noise_rel R g op qubits rng n' res' \<longrightarrow> n = n' \<and> res = res') \<and>
     (sample_calls_rel R g calls rng out \<longrightarrow> sample_calls_rel R g calls rng out' \<longrightarrow> out = out')"
  using sample_noise_rel_deterministic [of R g op qubits rng n res n' res']
    sample_calls_rel_deterministic [of R g calls rng out out']
  by simp

theorem sample_noise_deterministic_witness:
  "deterministic_collaborators (relations_of Collaborators) \<and>
   {(n, res). sample_noise_rel (relations_of Collaborators) (example_model [1 / 2, 1 / 4, 1 / 4])
        (Gate ''x'') [0] [7 / 8, 1 / 2, 1 / 4, 5 / 8, 0] n res} =
     {(2, (Inr [Gate ''x'', Kraus [[[1, 0], [0, 0]], [[0, 1], [0, 0]]]], [1 / 4, 5 / 8, 0]))} \<and>
   {out. sample_calls_rel (relations_of Collaborators) (example_model [1 / 2, 1 / 4, 1 / 4])
        [(Gate ''x'', [0]), (Gate ''h'', [1]), (Gate ''x'', [0])] [7 / 8, 1 / 2, 1 / 4, 5 / 8, 0] out} =
     {([(2, Inr [Gate ''x'', Kraus [[[1, 0], [0, 0]], [[0, 1], [0, 0]]]]),
        (0, Inr [Gate ''h'']),
        (1, Inr [Gate ''x'', Mat [[0, 1], [1, 0]]])], [])}"
proof -
  let ?R = "relations_of Collaborators"
  let ?g = "example_model [1 / 2, 1 / 4, 1 / 4]"
  let ?rng = "[7 / 8, 1 / 2, 1 / 4, 5 / 8, 0] :: real list"
  let ?calls = "[(Gate ''x'', [0 :: nat]), (Gate ''h'', [1]), (Gate ''x'', [0])]"
  let ?res = "(Inr [Gate ''x'', Kraus [[[1, 0], [0, 0]], [[0, 1], [0, 0]]]], [1 / 4, 5 / 8, 0])
    :: (error + Op list) \<times> real list"
  let ?out = "([(2 :: nat, Inr [Gate ''x'', Kraus [[[1, 0], [0, 0]], [[0, 1], [0, 0]]]]),
        (0, Inr [Gate ''h'']),
        (1, Inr [Gate ''x'', Mat [[0, 1], [1, 0]]])], [])
    :: (nat \<times> (error + Op list)) list \<times> real list"
  have det: "deterministic_collaborators ?R"
    by (rule deterministic_relations_of)
  have one: "sample_noise_rel ?R ?g (Gate ''x'') [0] ?rng 2 ?res"
    unfolding sample_noise_rel_relations_of by (simp add: sample_noise_def sample_simps)
  have run: "sample_calls_rel ?R ?g ?calls ?rng ?out"
    unfolding sample_calls_rel_relations_of by (rule run_sample_run [symmetric])
  note unique = sample_noise_deterministic [OF det, of ?g "Gate ''x''" "[0]" ?rng 2 ?res _ _ ?calls ?out]
  have first: "n = 2 \<and> res = ?res"
    if "sample_noise_rel ?R ?g (Gate ''x'') [0] ?rng n res" for n res
    using unique [THEN conjunct1, rule_format, OF one that] by simp
  have a: "{(n, res). sample_noise_rel ?R ?g (Gate ''x'') [0] ?rng n res} = {(2 :: nat, ?res)}"
  proof (intro set_eqI iffI)
    fix x
    assume "x \<in> {(n, res). sample_noise_rel ?R ?g (Gate ''x'') [0] ?rng n res}"
    then have "sample_noise_rel ?R ?g (Gate ''x'') [0] ?rng (fst x) (snd x)"
      by (simp add: case_prod_beta)
    from first [OF this] have "x = (2 :: nat, ?res)"
      by (simp add: prod_eq_iff)
    then show "x \<in> {(2 :: nat, ?res)}"
      by (simp only: singleton_iff)
  next
    fix x
    assume "x \<in> {(2 :: nat, ?res)}"
    then have x: "x = (2 :: nat, ?res)"
      by (rule singletonD)
    show "x \<in> {(n, res). sample_noise_rel ?R ?g (Gate ''x'') [0] ?rng n res}"
      unfolding x using one by (simp only: mem_Collect_eq prod.case)
  qed
  have all: "out = ?out" if "sample_calls_rel ?R ?g ?calls ?rng out" for out
    using unique [THEN conjunct2, rule_format, OF run that] by (rule sym)
  have b: "{out. sample_calls_rel ?R ?g ?calls ?rng out} = {?out}"
  proof (intro set_eqI iffI)
    fix x
    assume "x \<in> {out. sample_calls_rel ?R ?g ?calls ?rng out}"
    then have "sample_calls_rel ?R ?g ?calls ?rng x"
      by (rule CollectD)
    from all [OF this] show "x \<in> {?out}"
      by (simp only: singleton_iff)
  next
    fix x
    assume "x \<in> {?out}"
    then have x: "x = ?out"
      by (rule singletonD)
    show "x \<in> {out. sample_calls_rel ?R ?g ?calls ?rng out}"
      unfolding x using run by (rule CollectI)
  qed
  show ?thesis
    by (intro conjI det a b)
qed

text \<open>
  C10. \<open>set_from_ops\<close> reads \<^verbatim>\<open>mats[0]\<close> before anything else: on the empty list the
  behaviour is undefined, and none of the errors is thrown; on every non-empty list the
  read is in bounds, and the call returns or throws.
\<close>

theorem set_from_ops_first_element:
  "set_from_ops L [] p_error g = Undefined \<and>
   (\<forall>e g'. set_from_ops L [] p_error g \<noteq> Throws e g') \<and>
   (mats \<noteq> [] \<longrightarrow> set_from_ops L mats p_error g \<noteq> Undefined)"
proof (intro conjI impI)
  assume "mats \<noteq> []"
  then obtain m0 rest where mats: "mats = m0 # rest"
    by (cases mats) auto
  show "set_from_ops L mats p_error g \<noteq> Undefined"
  proof (cases "classify_all L empty_partition mats")
    case (Inl e)
    then show ?thesis by (simp add: set_from_ops_def mats)
  next
    case (Inr s)
    obtain g' where "configure L p_error s g = Returns g'"
      using configure_Returns by blast
    with Inr show ?thesis by (simp add: set_from_ops_def mats)
  qed
qed (simp_all add: set_from_ops_def)

theorem set_from_ops_first_element_witness:
  "set_from_ops Utils [] 1 GateError_default = Undefined \<and>
   [[[1, 0], [0, 1]]] \<noteq> ([] :: cmatrix list) \<and>
   set_from_ops Utils [[[1, 0], [0, 1]]] (1 / 2) GateError_default \<noteq> Undefined"
proof -
  have ne: "[[[1, 0], [0, 1]]] \<noteq> ([] :: cmatrix list)"
    by simp
  note inst = set_from_ops_first_element [of Utils _ GateError_default "[[[1, 0], [0, 1]]]"]
  show ?thesis
    by (intro conjI ne inst [of 1, THEN conjunct1]
        inst [of "1 / 2", THEN conjunct2, THEN conjunct2, rule_format, OF ne])
qed

end
